theory Spec2Isabelle
  imports Complex_Main
begin

section \<open>The BookStore API of \<open>app.py\<close>\<close>

text \<open>
  The program is a Flask application with two module-level dictionaries, \<open>books\<close> and
  \<open>authors\<close>, and one handler per route. Each handler is embedded as a function of the
  request's inputs and the two dictionaries, returning the dictionaries after the call
  together with what the handler returns or raises.

  Three inputs come from outside the handlers and are parameters of the model:
  \<^item> \<open>data\<close>, the result of \<open>request.get_json()\<close>, taken to be a decoded JSON object;
  \<^item> \<open>utcnow\<close>, the instant read by \<open>datetime.utcnow()\<close>;
  \<^item> \<open>uuid4\<close>, the string \<open>str(uuid.uuid4())\<close>.
\<close>

subsection \<open>JSON values\<close>

text \<open>
  The handlers never check the type of a payload value, so a stored field can hold any
  JSON value. A Python number, an \<open>int\<close> or a finite \<open>float\<close>, is kept by its exact
  value, which is how Python compares the two; \<open>inf\<close>, \<open>-inf\<close> and \<open>nan\<close>, which
  \<open>float()\<close> and Python's JSON decoder also accept, are values of their own.
\<close>

datatype number = Num rat | PosInf | NegInf | NaN

text \<open>Python's \<open>x <= y\<close> on numbers: false when either side is \<open>nan\<close>.\<close>

fun num_le :: "number \<Rightarrow> number \<Rightarrow> bool" where
  "num_le NaN y = False"
| "num_le x NaN = False"
| "num_le NegInf y = True"
| "num_le x PosInf = True"
| "num_le (Num x) (Num y) = (x \<le> y)"
| "num_le PosInf y = False"
| "num_le x NegInf = False"

datatype json =
    JNull
  | JBool bool
  | JNum number
  | JStr string
  | JArr "json list"
  | JObj "(string \<times> json) list"

datatype py_error = KeyError | TypeError

text \<open>A decoded JSON object: \<open>field in data\<close> is \<open>data field \<noteq> None\<close>.\<close>

type_synonym payload = "string \<Rightarrow> json option"

text \<open>
  The value a Python comparison with a \<open>float\<close> sees: \<open>bool\<close> is a subclass of
  \<open>int\<close>; for \<open>None\<close>, \<open>str\<close>, \<open>list\<close> and \<open>dict\<close> the comparison raises
  \<open>TypeError\<close>.
\<close>

fun py_number :: "json \<Rightarrow> number option" where
  "py_number (JNum r) = Some r"
| "py_number (JBool b) = Some (Num (if b then 1 else 0))"
| "py_number JNull = None"
| "py_number (JStr s) = None"
| "py_number (JArr xs) = None"
| "py_number (JObj kvs) = None"

text \<open>\<open>v >= m\<close> and \<open>v <= m\<close> for a stored value \<open>v\<close> and a float \<open>m\<close>.\<close>

definition py_ge :: "json \<Rightarrow> number \<Rightarrow> py_error + bool" where
  "py_ge v m = (case py_number v of None \<Rightarrow> Inl TypeError | Some r \<Rightarrow> Inr (num_le m r))"

definition py_le :: "json \<Rightarrow> number \<Rightarrow> py_error + bool" where
  "py_le v m = (case py_number v of None \<Rightarrow> Inl TypeError | Some r \<Rightarrow> Inr (num_le r m))"

text \<open>
  A list comprehension \<open>[b for b in xs if c(b)]\<close> whose condition can raise: the first
  exception, in list order, ends it.
\<close>

fun comprehension :: "('a \<Rightarrow> py_error + bool) \<Rightarrow> 'a list \<Rightarrow> py_error + 'a list" where
  "comprehension c [] = Inr []"
| "comprehension c (x # xs) =
     (case c x of
        Inl e \<Rightarrow> Inl e
      | Inr keep \<Rightarrow>
          (case comprehension c xs of
             Inl e \<Rightarrow> Inl e
           | Inr ys \<Rightarrow> Inr (if keep then x # ys else ys)))"

subsection \<open>Python dictionaries\<close>

text \<open>
  A \<open>dict\<close> keeps its keys in insertion order: assigning to a key that is present keeps
  the key's position, assigning to a new key appends it, \<open>del\<close> removes it.
\<close>

type_synonym ('k, 'v) dict = "('k \<times> 'v) list"

definition dict_get :: "('k, 'v) dict \<Rightarrow> 'k \<Rightarrow> 'v option" where
  "dict_get d k = map_of d k"

fun dict_set :: "'k \<Rightarrow> 'v \<Rightarrow> ('k, 'v) dict \<Rightarrow> ('k, 'v) dict" where
  "dict_set k v [] = [(k, v)]"
| "dict_set k v ((k', v') # d) =
     (if k' = k then (k, v) # d else (k', v') # dict_set k v d)"

definition dict_del :: "'k \<Rightarrow> ('k, 'v) dict \<Rightarrow> ('k, 'v) dict" where
  "dict_del k d = filter (\<lambda>kv. fst kv \<noteq> k) d"

definition dict_values :: "('k, 'v) dict \<Rightarrow> 'v list" where
  "dict_values d = map snd d"

definition dict_keys :: "('k, 'v) dict \<Rightarrow> 'k list" where
  "dict_keys d = map fst d"

subsection \<open>Records and the store\<close>

text \<open>
  A timestamp is the instant the clock returned, in microseconds since the epoch; the
  source stores its rendering \<open>isoformat() + "Z"\<close>. No handler reads \<open>created_at\<close> or
  \<open>updated_at\<close> from a payload, so these two fields only ever hold clock readings.
\<close>

type_synonym timestamp = nat

record resource =
  ident :: string
  created_at :: timestamp
  updated_at :: timestamp

record book = resource +
  title :: json
  author_id :: json
  isbn :: json
  published_year :: json
  price :: json
  stock :: json

record author = resource +
  name :: json
  birth_year :: json
  nationality :: json

record store =
  books :: "(string, book) dict"
  authors :: "(string, author) dict"

text \<open>
  The values of the Python floats that the literals \<open>12.99\<close>, \<open>14.99\<close>, \<open>13.99\<close> and
  \<open>9.99\<close> denote (each a multiple of \<open>2 ^ -49\<close>).
\<close>

definition float_12_99 :: rat where
  "float_12_99 = 7312719894942843 / 562949953421312"

definition float_14_99 :: rat where
  "float_14_99 = 8438619801785467 / 562949953421312"

definition float_13_99 :: rat where
  "float_13_99 = 7875669848364155 / 562949953421312"

definition float_9_99 :: rat where
  "float_9_99 = 5623870034678907 / 562949953421312"

text \<open>\<open>"2024-01-01T00:00:00Z"\<close>, the timestamp of every seed record.\<close>

definition seed_time :: timestamp where
  "seed_time = 1704067200000000"

definition seed_books :: "(string, book) dict" where
  "seed_books =
    [(''1'', \<lparr>ident = ''1'', created_at = seed_time, updated_at = seed_time,
             title = JStr ''The Great Gatsby'', author_id = JStr ''1'',
             isbn = JStr ''978-0-7432-7356-5'', published_year = JNum (Num 1925),
             price = JNum (Num float_12_99), stock = JNum (Num 42)\<rparr>),
     (''2'', \<lparr>ident = ''2'', created_at = seed_time, updated_at = seed_time,
             title = JStr ''To Kill a Mockingbird'', author_id = JStr ''2'',
             isbn = JStr ''978-0-06-112008-4'', published_year = JNum (Num 1960),
             price = JNum (Num float_14_99), stock = JNum (Num 28)\<rparr>),
     (''3'', \<lparr>ident = ''3'', created_at = seed_time, updated_at = seed_time,
             title = JStr ''1984'', author_id = JStr ''3'',
             isbn = JStr ''978-0-452-28423-4'', published_year = JNum (Num 1949),
             price = JNum (Num float_13_99), stock = JNum (Num 35)\<rparr>)]"

definition seed_authors :: "(string, author) dict" where
  "seed_authors =
    [(''1'', \<lparr>ident = ''1'', created_at = seed_time, updated_at = seed_time,
             name = JStr ''F. Scott Fitzgerald'', birth_year = JNum (Num 1896),
             nationality = JStr ''American''\<rparr>),
     (''2'', \<lparr>ident = ''2'', created_at = seed_time, updated_at = seed_time,
             name = JStr ''Harper Lee'', birth_year = JNum (Num 1926),
             nationality = JStr ''American''\<rparr>),
     (''3'', \<lparr>ident = ''3'', created_at = seed_time, updated_at = seed_time,
             name = JStr ''George Orwell'', birth_year = JNum (Num 1903),
             nationality = JStr ''British''\<rparr>)]"

definition seed_store :: store where
  "seed_store = \<lparr>books = seed_books, authors = seed_authors\<rparr>"

subsection \<open>Responses\<close>

text \<open>
  What \<open>jsonify\<close> is given, one constructor per shape of body, and the status code
  beside it. A handler that raises gives \<open>Inl\<close> of the exception (Flask answers 500).
\<close>

datatype body =
    Error string
  | Book book
  | Books "book list" nat
  | Author author
  | Authors "author list" nat
  | AuthorBooks author "book list" nat
  | Empty

type_synonym response = "nat \<times> body"

type_synonym outcome = "py_error + response"

subsection \<open>Validation\<close>

definition book_required_fields :: "string list" where
  "book_required_fields = [''title'', ''author_id'', ''isbn'', ''published_year'', ''price'']"

definition author_required_fields :: "string list" where
  "author_required_fields = [''name'', ''birth_year'', ''nationality'']"

text \<open>
  The loop \<open>for field in required_fields: if field not in data: return ...\<close>: the first
  required field, in list order, that the payload lacks.
\<close>

fun missing_field :: "string list \<Rightarrow> payload \<Rightarrow> string option" where
  "missing_field [] data = None"
| "missing_field (field # rest) data =
     (if data field = None then Some field else missing_field rest data)"

definition missing_error :: "string \<Rightarrow> response" where
  "missing_error field = (400, Error (''Missing required field: '' @ field))"

text \<open>
  The dictionary literal of \<open>create_book\<close> and \<open>update_book\<close>. \<open>data['title']\<close> raises
  \<open>KeyError\<close> on a missing key, \<open>data.get('stock', 0)\<close> does not.
\<close>

definition book_literal :: "string \<Rightarrow> timestamp \<Rightarrow> timestamp \<Rightarrow> payload \<Rightarrow> py_error + book" where
  "book_literal book_id created updated data =
    (case data ''title'' of None \<Rightarrow> Inl KeyError | Some t \<Rightarrow>
     case data ''author_id'' of None \<Rightarrow> Inl KeyError | Some a \<Rightarrow>
     case data ''isbn'' of None \<Rightarrow> Inl KeyError | Some i \<Rightarrow>
     case data ''published_year'' of None \<Rightarrow> Inl KeyError | Some y \<Rightarrow>
     case data ''price'' of None \<Rightarrow> Inl KeyError | Some p \<Rightarrow>
       Inr \<lparr>ident = book_id, created_at = created, updated_at = updated,
            title = t, author_id = a, isbn = i, published_year = y, price = p,
            stock = (case data ''stock'' of None \<Rightarrow> JNum (Num 0) | Some n \<Rightarrow> n)\<rparr>)"

definition author_literal :: "string \<Rightarrow> timestamp \<Rightarrow> timestamp \<Rightarrow> payload \<Rightarrow> py_error + author" where
  "author_literal author_id' created updated data =
    (case data ''name'' of None \<Rightarrow> Inl KeyError | Some n \<Rightarrow>
     case data ''birth_year'' of None \<Rightarrow> Inl KeyError | Some y \<Rightarrow>
     case data ''nationality'' of None \<Rightarrow> Inl KeyError | Some c \<Rightarrow>
       Inr \<lparr>ident = author_id', created_at = created, updated_at = updated,
            name = n, birth_year = y, nationality = c\<rparr>)"

subsection \<open>Book handlers\<close>

text \<open>
  \<open>GET /books\<close>. \<open>request.args.get('author_id')\<close> is \<open>None\<close> or a string, and
  \<open>if author_id:\<close> is false for both \<open>None\<close> and the empty string. The two price
  bounds are \<open>None\<close> or a float.
\<close>

definition get_books :: "string option \<Rightarrow> number option \<Rightarrow> number option \<Rightarrow> store \<Rightarrow> outcome" where
  "get_books author_id' min_price max_price s =
    (let all_books = dict_values (books s);
         by_author =
           (case author_id' of
              None \<Rightarrow> all_books
            | Some a \<Rightarrow> if a = [] then all_books
                        else filter (\<lambda>b. author_id b = JStr a) all_books)
     in case (case min_price of
                None \<Rightarrow> Inr by_author
              | Some lo \<Rightarrow> comprehension (\<lambda>b. py_ge (price b) lo) by_author) of
          Inl e \<Rightarrow> Inl e
        | Inr by_min \<Rightarrow>
            (case (case max_price of
                     None \<Rightarrow> Inr by_min
                   | Some hi \<Rightarrow> comprehension (\<lambda>b. py_le (price b) hi) by_min) of
               Inl e \<Rightarrow> Inl e
             | Inr filtered_books \<Rightarrow> Inr (200, Books filtered_books (length filtered_books))))"

definition get_book :: "string \<Rightarrow> store \<Rightarrow> outcome" where
  "get_book book_id s =
    (case dict_get (books s) book_id of
       None \<Rightarrow> Inr (404, Error ''Book not found'')
     | Some b \<Rightarrow> Inr (200, Book b))"

definition create_book :: "string \<Rightarrow> timestamp \<Rightarrow> payload \<Rightarrow> store \<Rightarrow> store \<times> outcome" where
  "create_book uuid4 utcnow data s =
    (case missing_field book_required_fields data of
       Some field \<Rightarrow> (s, Inr (missing_error field))
     | None \<Rightarrow>
         (case book_literal uuid4 utcnow utcnow data of
            Inl e \<Rightarrow> (s, Inl e)
          | Inr new_book \<Rightarrow>
              (s\<lparr>books := dict_set uuid4 new_book (books s)\<rparr>, Inr (201, Book new_book))))"

definition update_book :: "string \<Rightarrow> timestamp \<Rightarrow> payload \<Rightarrow> store \<Rightarrow> store \<times> outcome" where
  "update_book book_id utcnow data s =
    (case dict_get (books s) book_id of
       None \<Rightarrow> (s, Inr (404, Error ''Book not found''))
     | Some old \<Rightarrow>
         (case missing_field book_required_fields data of
            Some field \<Rightarrow> (s, Inr (missing_error field))
          | None \<Rightarrow>
              (case book_literal book_id (created_at old) utcnow data of
                 Inl e \<Rightarrow> (s, Inl e)
               | Inr updated_book \<Rightarrow>
                   (s\<lparr>books := dict_set book_id updated_book (books s)\<rparr>,
                    Inr (200, Book updated_book)))))"

text \<open>
  \<open>PATCH /books/<book_id>\<close> assigns into the dictionary that the table holds, so the
  table's entry changes with it.
\<close>

definition patch_fields :: "payload \<Rightarrow> book \<Rightarrow> book" where
  "patch_fields data b0 =
    (let b1 = (case data ''title'' of None \<Rightarrow> b0 | Some v \<Rightarrow> b0\<lparr>title := v\<rparr>);
         b2 = (case data ''author_id'' of None \<Rightarrow> b1 | Some v \<Rightarrow> b1\<lparr>author_id := v\<rparr>);
         b3 = (case data ''isbn'' of None \<Rightarrow> b2 | Some v \<Rightarrow> b2\<lparr>isbn := v\<rparr>);
         b4 = (case data ''published_year'' of None \<Rightarrow> b3 | Some v \<Rightarrow> b3\<lparr>published_year := v\<rparr>);
         b5 = (case data ''price'' of None \<Rightarrow> b4 | Some v \<Rightarrow> b4\<lparr>price := v\<rparr>);
         b6 = (case data ''stock'' of None \<Rightarrow> b5 | Some v \<Rightarrow> b5\<lparr>stock := v\<rparr>)
     in b6)"

definition partial_update_book :: "string \<Rightarrow> timestamp \<Rightarrow> payload \<Rightarrow> store \<Rightarrow> store \<times> outcome" where
  "partial_update_book book_id utcnow data s =
    (case dict_get (books s) book_id of
       None \<Rightarrow> (s, Inr (404, Error ''Book not found''))
     | Some b0 \<Rightarrow>
         (let b = (patch_fields data b0)\<lparr>updated_at := utcnow\<rparr>
          in (s\<lparr>books := dict_set book_id b (books s)\<rparr>, Inr (200, Book b))))"

definition delete_book :: "string \<Rightarrow> store \<Rightarrow> store \<times> outcome" where
  "delete_book book_id s =
    (case dict_get (books s) book_id of
       None \<Rightarrow> (s, Inr (404, Error ''Book not found''))
     | Some b \<Rightarrow> (s\<lparr>books := dict_del book_id (books s)\<rparr>, Inr (204, Empty)))"

subsection \<open>Author handlers\<close>

definition get_authors :: "store \<Rightarrow> outcome" where
  "get_authors s = Inr (200, Authors (dict_values (authors s)) (length (authors s)))"

definition get_author :: "string \<Rightarrow> store \<Rightarrow> outcome" where
  "get_author author_id' s =
    (case dict_get (authors s) author_id' of
       None \<Rightarrow> Inr (404, Error ''Author not found'')
     | Some a \<Rightarrow> Inr (200, Author a))"

definition create_author :: "string \<Rightarrow> timestamp \<Rightarrow> payload \<Rightarrow> store \<Rightarrow> store \<times> outcome" where
  "create_author uuid4 utcnow data s =
    (case missing_field author_required_fields data of
       Some field \<Rightarrow> (s, Inr (missing_error field))
     | None \<Rightarrow>
         (case author_literal uuid4 utcnow utcnow data of
            Inl e \<Rightarrow> (s, Inl e)
          | Inr new_author \<Rightarrow>
              (s\<lparr>authors := dict_set uuid4 new_author (authors s)\<rparr>,
               Inr (201, Author new_author))))"

definition update_author :: "string \<Rightarrow> timestamp \<Rightarrow> payload \<Rightarrow> store \<Rightarrow> store \<times> outcome" where
  "update_author author_id' utcnow data s =
    (case dict_get (authors s) author_id' of
       None \<Rightarrow> (s, Inr (404, Error ''Author not found''))
     | Some old \<Rightarrow>
         (case missing_field author_required_fields data of
            Some field \<Rightarrow> (s, Inr (missing_error field))
          | None \<Rightarrow>
              (case author_literal author_id' (created_at old) utcnow data of
                 Inl e \<Rightarrow> (s, Inl e)
               | Inr updated_author \<Rightarrow>
                   (s\<lparr>authors := dict_set author_id' updated_author (authors s)\<rparr>,
                    Inr (200, Author updated_author)))))"

definition delete_author :: "string \<Rightarrow> store \<Rightarrow> store \<times> outcome" where
  "delete_author author_id' s =
    (case dict_get (authors s) author_id' of
       None \<Rightarrow> (s, Inr (404, Error ''Author not found''))
     | Some a \<Rightarrow> (s\<lparr>authors := dict_del author_id' (authors s)\<rparr>, Inr (204, Empty)))"

definition get_author_books :: "string \<Rightarrow> store \<Rightarrow> outcome" where
  "get_author_books author_id' s =
    (case dict_get (authors s) author_id' of
       None \<Rightarrow> Inr (404, Error ''Author not found'')
     | Some a \<Rightarrow>
         (let author_books = filter (\<lambda>b. author_id b = JStr author_id') (dict_values (books s))
          in Inr (200, AuthorBooks a author_books (length author_books))))"

subsection \<open>Runs of the application\<close>

text \<open>
  A call is one request together with what the environment hands to its handler: the
  identifier the generator would return and the clock's reading. The application handles
  one request to completion before the next.
\<close>

datatype request =
    GetBooks "string option" "number option" "number option"
  | GetBook string
  | CreateBook payload
  | UpdateBook string payload
  | PartialUpdateBook string payload
  | DeleteBook string
  | GetAuthors
  | GetAuthor string
  | CreateAuthor payload
  | UpdateAuthor string payload
  | DeleteAuthor string
  | GetAuthorBooks string

record call =
  uuid :: string
  clock :: timestamp
  req :: request

definition handle :: "call \<Rightarrow> store \<Rightarrow> store \<times> outcome" where
  "handle c s =
    (case req c of
       GetBooks a lo hi \<Rightarrow> (s, get_books a lo hi s)
     | GetBook i \<Rightarrow> (s, get_book i s)
     | CreateBook data \<Rightarrow> create_book (uuid c) (clock c) data s
     | UpdateBook i data \<Rightarrow> update_book i (clock c) data s
     | PartialUpdateBook i data \<Rightarrow> partial_update_book i (clock c) data s
     | DeleteBook i \<Rightarrow> delete_book i s
     | GetAuthors \<Rightarrow> (s, get_authors s)
     | GetAuthor i \<Rightarrow> (s, get_author i s)
     | CreateAuthor data \<Rightarrow> create_author (uuid c) (clock c) data s
     | UpdateAuthor i data \<Rightarrow> update_author i (clock c) data s
     | DeleteAuthor i \<Rightarrow> delete_author i s
     | GetAuthorBooks i \<Rightarrow> (s, get_author_books i s))"

fun run :: "call list \<Rightarrow> store \<Rightarrow> store" where
  "run [] s = s"
| "run (c # cs) s = run cs (fst (handle c s))"

subsection \<open>Properties of records and tables\<close>

definition ordered_stamps :: "'a resource_scheme \<Rightarrow> bool" where
  "ordered_stamps r = (created_at r \<le> updated_at r)"

definition stamped_until :: "timestamp \<Rightarrow> 'a resource_scheme \<Rightarrow> bool" where
  "stamped_until t r = (created_at r \<le> updated_at r \<and> updated_at r \<le> t)"

text \<open>Every record of both tables satisfies \<open>P\<close> resp. \<open>Q\<close>.\<close>

definition all_records :: "(book \<Rightarrow> bool) \<Rightarrow> (author \<Rightarrow> bool) \<Rightarrow> store \<Rightarrow> bool" where
  "all_records P Q s = (list_all P (dict_values (books s)) \<and> list_all Q (dict_values (authors s)))"

text \<open>
  The listing of section 4.3 of the specification, in its words: from the table's books
  in table order, keep those that pass every filter whose parameter is provided.
\<close>

definition price_at_least :: "number \<Rightarrow> book \<Rightarrow> bool" where
  "price_at_least lo b = (case py_number (price b) of None \<Rightarrow> False | Some r \<Rightarrow> num_le lo r)"

definition price_at_most :: "number \<Rightarrow> book \<Rightarrow> bool" where
  "price_at_most hi b = (case py_number (price b) of None \<Rightarrow> False | Some r \<Rightarrow> num_le r hi)"

definition list_books_spec :: "string option \<Rightarrow> number option \<Rightarrow> number option \<Rightarrow> book list \<Rightarrow> book list" where
  "list_books_spec author_id' min_price max_price table =
    filter (\<lambda>b. (case author_id' of None \<Rightarrow> True | Some a \<Rightarrow> author_id b = JStr a) \<and>
                (case min_price of None \<Rightarrow> True | Some lo \<Rightarrow> price_at_least lo b) \<and>
                (case max_price of None \<Rightarrow> True | Some hi \<Rightarrow> price_at_most hi b)) table"

text \<open>
  The first stage of \<open>get_books\<close>: the books that the author filter lets through, all
  of them when \<open>author_id\<close> is \<open>None\<close> or the empty string.
\<close>

definition author_filter :: "string option \<Rightarrow> book \<Rightarrow> bool" where
  "author_filter author_id' b =
    (case author_id' of None \<Rightarrow> True | Some a \<Rightarrow> a = [] \<or> author_id b = JStr a)"

text \<open>The six keys that \<open>partial_update_book\<close> looks for.\<close>

definition patch_keys :: "string list" where
  "patch_keys = [''title'', ''author_id'', ''isbn'', ''published_year'', ''price'', ''stock'']"

subsection \<open>Example inputs\<close>

text \<open>A payload with every required field and no \<open>stock\<close>, and an identifier as \<open>uuid4\<close> prints it.\<close>

definition example_payload :: payload where
  "example_payload =
    [''title'' \<mapsto> JStr ''Dune'', ''author_id'' \<mapsto> JStr ''9'',
     ''isbn'' \<mapsto> JStr ''978-0-441-17271-9'', ''published_year'' \<mapsto> JNum (Num 1965),
     ''price'' \<mapsto> JNum (Num float_9_99)]"

definition example_uuid :: string where
  "example_uuid = ''3f2b8c1e-5d47-4a9b-8e6f-0a1b2c3d4e5f''"

text \<open>The same payload with a price that is not a number.\<close>

definition free_payload :: payload where
  "free_payload = example_payload(''price'' \<mapsto> JStr ''free'')"

text \<open>A run over both tables, with clock readings that never go back.\<close>

definition example_calls :: "call list" where
  "example_calls =
    [\<lparr>uuid = example_uuid, clock = seed_time + 1, req = CreateBook example_payload\<rparr>,
     \<lparr>uuid = example_uuid, clock = seed_time + 2, req = UpdateBook ''1'' example_payload\<rparr>,
     \<lparr>uuid = example_uuid, clock = seed_time + 2,
      req = PartialUpdateBook ''2'' [''stock'' \<mapsto> JNum (Num 5)]\<rparr>,
     \<lparr>uuid = example_uuid, clock = seed_time + 3, req = DeleteBook ''3''\<rparr>,
     \<lparr>uuid = example_uuid, clock = seed_time + 4,
      req = UpdateAuthor ''1''
        [''name'' \<mapsto> JStr ''Fitzgerald'', ''birth_year'' \<mapsto> JNum (Num 1896),
         ''nationality'' \<mapsto> JStr ''American'']\<rparr>,
     \<lparr>uuid = example_uuid, clock = seed_time + 5, req = DeleteAuthor ''2''\<rparr>]"

section \<open>Lemmas about dictionaries and validation\<close>

lemma dict_get_set: "dict_get (dict_set k v d) k' = (if k' = k then Some v else dict_get d k')"
  by (induction d) (auto simp: dict_get_def)

lemma dict_set_absent: "dict_get d k = None \<Longrightarrow> dict_set k v d = d @ [(k, v)]"
  by (induction d) (auto simp: dict_get_def split: if_splits)

lemma dict_keys_set_present: "dict_get d k = Some v' \<Longrightarrow> dict_keys (dict_set k v d) = dict_keys d"
  by (induction d) (auto simp: dict_get_def dict_keys_def split: if_splits)

lemma dict_get_del: "dict_get (dict_del k d) k' = (if k' = k then None else dict_get d k')"
  by (induction d) (auto simp: dict_get_def dict_del_def)

lemma dict_get_None_iff: "dict_get d k = None \<longleftrightarrow> k \<notin> set (dict_keys d)"
  by (simp add: dict_get_def dict_keys_def map_of_eq_None_iff)

lemma missing_field_None_iff: "missing_field fs data = None \<longleftrightarrow> (\<forall>f\<in>set fs. data f \<noteq> None)"
  by (induction fs) auto

lemma missing_field_Some: "missing_field fs data = Some f \<Longrightarrow> f \<in> set fs \<and> data f = None"
  by (induction fs) (auto split: if_splits)

lemma book_literal_valid:
  assumes "missing_field book_required_fields data = None"
  shows "\<exists>t a i y p. data ''title'' = Some t \<and> data ''author_id'' = Some a \<and>
           data ''isbn'' = Some i \<and> data ''published_year'' = Some y \<and> data ''price'' = Some p \<and>
           book_literal k c u data =
             Inr \<lparr>ident = k, created_at = c, updated_at = u, title = t, author_id = a, isbn = i,
                  published_year = y, price = p,
                  stock = (case data ''stock'' of None \<Rightarrow> JNum (Num 0) | Some n \<Rightarrow> n)\<rparr>"
proof -
  from assms have "\<forall>f\<in>set book_required_fields. data f \<noteq> None"
    by (simp only: missing_field_None_iff)
  then have "data ''title'' \<noteq> None" "data ''author_id'' \<noteq> None" "data ''isbn'' \<noteq> None"
    "data ''published_year'' \<noteq> None" "data ''price'' \<noteq> None"
    by (simp_all add: book_required_fields_def)
  then show ?thesis
    by (auto simp: book_literal_def)
qed


lemma valid_payload: "(\<forall>f\<in>set book_required_fields. data f \<noteq> None) \<Longrightarrow> missing_field book_required_fields data = None"
  by (simp only: missing_field_None_iff)

lemma book_literal_fields:
  assumes "missing_field book_required_fields data = None"
  shows "\<exists>b. book_literal k c u data = Inr b \<and>
           ident b = k \<and> created_at b = c \<and> updated_at b = u \<and>
           data ''title'' = Some (title b) \<and> data ''author_id'' = Some (author_id b) \<and>
           data ''isbn'' = Some (isbn b) \<and> data ''published_year'' = Some (published_year b) \<and>
           data ''price'' = Some (price b) \<and>
           stock b = (case data ''stock'' of None \<Rightarrow> JNum (Num 0) | Some n \<Rightarrow> n)"
  using book_literal_valid [OF assms, of k c u] by auto


section \<open>Replace: the not-found check comes first\<close>

text \<open>
  C1. For a book id that is not a key of the Book table, and for every payload, also one
  that lacks required fields, \<open>PUT /books/<book_id>\<close> answers 404 with the body
  \<open>{"error": "Book not found"}\<close>, so not 400, and the store is returned as it was.
\<close>

theorem update_book_not_found:
  assumes "dict_get (books s) book_id = None"
  shows "update_book book_id utcnow data s = (s, Inr (404, Error ''Book not found'')) \<and>
         fst (update_book book_id utcnow data s) = s \<and>
         (\<forall>b. snd (update_book book_id utcnow data s) \<noteq> Inr (400, b))"
  using assms by (simp add: update_book_def)

theorem update_book_not_found_witness:
  "dict_get (books seed_store) ''4'' = None \<and>
   missing_field book_required_fields Map.empty = Some ''title'' \<and>
   update_book ''4'' (seed_time + 1) Map.empty seed_store
     = (seed_store, Inr (404, Error ''Book not found''))"
proof -
  have absent: "dict_get (books seed_store) ''4'' = None"
    by (simp add: seed_store_def seed_books_def dict_get_def)
  have invalid: "missing_field book_required_fields Map.empty = Some ''title''"
    by (simp add: book_required_fields_def)
  from update_book_not_found [OF absent] absent invalid show ?thesis
    by simp
qed

section \<open>Create: validation failure\<close>

text \<open>
  C3. When the payload lacks at least one of the required fields \<open>title\<close>,
  \<open>author_id\<close>, \<open>isbn\<close>, \<open>published_year\<close>, \<open>price\<close>, \<open>POST /books\<close> answers 400
  with the body \<open>{"error": "Missing required field: <field>"}\<close> for a required field
  that the payload lacks, and the store, so the Book table and its size, is unchanged.
\<close>

theorem create_book_missing_field:
  assumes "\<exists>f\<in>set book_required_fields. data f = None"
  shows "\<exists>field\<in>set book_required_fields.
           data field = None \<and>
           create_book uuid4 utcnow data s
             = (s, Inr (400, Error (''Missing required field: '' @ field)))"
proof -
  from assms have "missing_field book_required_fields data \<noteq> None"
    by (simp only: missing_field_None_iff) blast
  then obtain field where m: "missing_field book_required_fields data = Some field"
    by blast
  from missing_field_Some [OF m] m show ?thesis
    by (auto simp: create_book_def missing_error_def)
qed

theorem create_book_missing_field_witness:
  "(\<exists>f\<in>set book_required_fields.
      [''title'' \<mapsto> JStr ''Dune'', ''author_id'' \<mapsto> JStr ''1'', ''isbn'' \<mapsto> JStr ''x'',
       ''published_year'' \<mapsto> JNum (Num 1965)] f = None) \<and>
   (\<exists>field\<in>set book_required_fields.
      [''title'' \<mapsto> JStr ''Dune'', ''author_id'' \<mapsto> JStr ''1'', ''isbn'' \<mapsto> JStr ''x'',
       ''published_year'' \<mapsto> JNum (Num 1965)] field = None \<and>
      create_book ''u'' (seed_time + 1)
        [''title'' \<mapsto> JStr ''Dune'', ''author_id'' \<mapsto> JStr ''1'', ''isbn'' \<mapsto> JStr ''x'',
         ''published_year'' \<mapsto> JNum (Num 1965)] seed_store
       = (seed_store, Inr (400, Error (''Missing required field: '' @ field)))) \<and>
   create_book ''u'' (seed_time + 1)
      [''title'' \<mapsto> JStr ''Dune'', ''author_id'' \<mapsto> JStr ''1'', ''isbn'' \<mapsto> JStr ''x'',
       ''published_year'' \<mapsto> JNum (Num 1965)] seed_store
     = (seed_store, Inr (400, Error ''Missing required field: price''))"
proof (intro conjI)
  show lacks: "\<exists>f\<in>set book_required_fields.
      [''title'' \<mapsto> JStr ''Dune'', ''author_id'' \<mapsto> JStr ''1'', ''isbn'' \<mapsto> JStr ''x'',
       ''published_year'' \<mapsto> JNum (Num 1965)] f = None"
    by (simp add: book_required_fields_def)
  show "\<exists>field\<in>set book_required_fields.
      [''title'' \<mapsto> JStr ''Dune'', ''author_id'' \<mapsto> JStr ''1'', ''isbn'' \<mapsto> JStr ''x'',
       ''published_year'' \<mapsto> JNum (Num 1965)] field = None \<and>
      create_book ''u'' (seed_time + 1)
        [''title'' \<mapsto> JStr ''Dune'', ''author_id'' \<mapsto> JStr ''1'', ''isbn'' \<mapsto> JStr ''x'',
         ''published_year'' \<mapsto> JNum (Num 1965)] seed_store
       = (seed_store, Inr (400, Error (''Missing required field: '' @ field)))"
    by (rule create_book_missing_field [OF lacks])
  show "create_book ''u'' (seed_time + 1)
      [''title'' \<mapsto> JStr ''Dune'', ''author_id'' \<mapsto> JStr ''1'', ''isbn'' \<mapsto> JStr ''x'',
       ''published_year'' \<mapsto> JNum (Num 1965)] seed_store
     = (seed_store, Inr (400, Error ''Missing required field: price''))"
    by (simp add: create_book_def book_required_fields_def missing_error_def)
qed

section \<open>Listing with an empty \<open>author_id\<close>\<close>

text \<open>
  C10. \<open>GET /books?author_id=\<close>, the parameter present and empty, answers exactly as
  the same request without the parameter: the handler tests the parameter's truth value.
  With no price bound every book of the table is returned.
\<close>

theorem get_books_empty_author_id:
  "get_books (Some '''') min_price max_price s = get_books None min_price max_price s \<and>
   get_books (Some '''') None None s
     = Inr (200, Books (dict_values (books s)) (length (dict_values (books s))))"
  by (simp add: get_books_def Let_def)

section \<open>Create: a valid payload\<close>

text \<open>
  C4, amended. When the payload has every required field, \<open>POST /books\<close> answers 201
  with a new record: its id is the identifier the generator returned, \<open>created_at\<close>
  equals \<open>updated_at\<close>, the required fields are the payload's, \<open>stock\<close> is the
  payload's or 0 when absent, and the table holds the record under its id. The source
  calls \<open>uuid.uuid4()\<close> and does not look the result up: when the generator returns an
  identifier that is not yet a key of the table, the id differs from every id already
  present, the record is appended and the table grows by one.
\<close>

theorem create_book_valid:
  assumes valid: "\<forall>f\<in>set book_required_fields. data f \<noteq> None"
  shows "\<exists>new_book.
           create_book uuid4 utcnow data s
             = (s\<lparr>books := dict_set uuid4 new_book (books s)\<rparr>, Inr (201, Book new_book)) \<and>
           ident new_book = uuid4 \<and>
           created_at new_book = utcnow \<and>
           updated_at new_book = created_at new_book \<and>
           data ''title'' = Some (title new_book) \<and>
           data ''author_id'' = Some (author_id new_book) \<and>
           data ''isbn'' = Some (isbn new_book) \<and>
           data ''published_year'' = Some (published_year new_book) \<and>
           data ''price'' = Some (price new_book) \<and>
           stock new_book = (case data ''stock'' of None \<Rightarrow> JNum (Num 0) | Some n \<Rightarrow> n) \<and>
           dict_get (books (fst (create_book uuid4 utcnow data s))) (ident new_book) = Some new_book \<and>
           (uuid4 \<notin> set (dict_keys (books s)) \<longrightarrow>
              (\<forall>k\<in>set (dict_keys (books s)). ident new_book \<noteq> k) \<and>
              books (fst (create_book uuid4 utcnow data s)) = books s @ [(uuid4, new_book)] \<and>
              length (books (fst (create_book uuid4 utcnow data s))) = Suc (length (books s)))"
proof -
  from valid have m: "missing_field book_required_fields data = None"
    by (rule valid_payload)
  from book_literal_fields [OF m, of uuid4 utcnow utcnow]
  obtain new_book where lit: "book_literal uuid4 utcnow utcnow data = Inr new_book"
    and flds: "ident new_book = uuid4" "created_at new_book = utcnow" "updated_at new_book = utcnow"
      "data ''title'' = Some (title new_book)" "data ''author_id'' = Some (author_id new_book)"
      "data ''isbn'' = Some (isbn new_book)" "data ''published_year'' = Some (published_year new_book)"
      "data ''price'' = Some (price new_book)"
      "stock new_book = (case data ''stock'' of None \<Rightarrow> JNum (Num 0) | Some n \<Rightarrow> n)"
    by blast
  have res: "create_book uuid4 utcnow data s
             = (s\<lparr>books := dict_set uuid4 new_book (books s)\<rparr>, Inr (201, Book new_book))"
    by (simp add: create_book_def m lit)
  have stored: "dict_get (books (fst (create_book uuid4 utcnow data s))) (ident new_book) = Some new_book"
    by (simp add: res flds dict_get_set)
  have fresh: "uuid4 \<notin> set (dict_keys (books s)) \<longrightarrow>
              (\<forall>k\<in>set (dict_keys (books s)). ident new_book \<noteq> k) \<and>
              books (fst (create_book uuid4 utcnow data s)) = books s @ [(uuid4, new_book)] \<and>
              length (books (fst (create_book uuid4 utcnow data s))) = Suc (length (books s))"
    by (auto simp: res flds dict_set_absent dict_get_None_iff)
  from res flds stored fresh show ?thesis
    by (intro exI [of _ new_book]) simp
qed


theorem create_book_valid_witness:
  "\<not> (\<exists>f\<in>set book_required_fields. example_payload f = None) \<and>
   example_uuid \<notin> set (dict_keys (books seed_store)) \<and>
   (\<exists>new_book.
      create_book example_uuid (seed_time + 1) example_payload seed_store
        = (seed_store\<lparr>books := books seed_store @ [(example_uuid, new_book)]\<rparr>,
           Inr (201, Book new_book)) \<and>
      ident new_book = example_uuid \<and>
      created_at new_book = updated_at new_book \<and>
      stock new_book = JNum (Num 0))"
proof -
  have valid: "\<forall>f\<in>set book_required_fields. example_payload f \<noteq> None"
    by (simp add: book_required_fields_def example_payload_def)
  have fresh: "example_uuid \<notin> set (dict_keys (books seed_store))"
    by (simp add: example_uuid_def seed_store_def seed_books_def dict_keys_def)
  have no_stock: "example_payload ''stock'' = None"
    by (simp add: example_payload_def)
  from create_book_valid [OF valid, of example_uuid "seed_time + 1" seed_store]
  obtain new_book where
    r: "create_book example_uuid (seed_time + 1) example_payload seed_store
          = (seed_store\<lparr>books := dict_set example_uuid new_book (books seed_store)\<rparr>,
             Inr (201, Book new_book))"
    and i: "ident new_book = example_uuid"
    and c: "updated_at new_book = created_at new_book"
    and st: "stock new_book = (case example_payload ''stock'' of None \<Rightarrow> JNum (Num 0) | Some n \<Rightarrow> n)"
    and app: "example_uuid \<notin> set (dict_keys (books seed_store)) \<longrightarrow>
              (\<forall>k\<in>set (dict_keys (books seed_store)). ident new_book \<noteq> k) \<and>
              books (fst (create_book example_uuid (seed_time + 1) example_payload seed_store))
                = books seed_store @ [(example_uuid, new_book)] \<and>
              length (books (fst (create_book example_uuid (seed_time + 1) example_payload seed_store)))
                = Suc (length (books seed_store))"
    by blast
  from app fresh r have "dict_set example_uuid new_book (books seed_store)
      = books seed_store @ [(example_uuid, new_book)]"
    by simp
  with r i c st no_stock valid fresh show ?thesis
    by (intro conjI exI [of _ new_book]) simp_all
qed

text \<open>
  C4 as stated fails when the generator returns an identifier that is already a key of
  the table, here the identifier of the book created just before: the second call answers
  201 with a record whose id is present already, the record replaces the one stored
  under that id, and the table keeps its size.
\<close>

theorem create_book_valid_counterexample:
  "missing_field book_required_fields example_payload = None \<and>
   example_uuid
     \<in> set (dict_keys (books (fst (create_book example_uuid (seed_time + 1) example_payload
                                     seed_store)))) \<and>
   snd (create_book example_uuid (seed_time + 2) example_payload
          (fst (create_book example_uuid (seed_time + 1) example_payload seed_store)))
     = Inr (201, Book
         \<lparr>ident = example_uuid, created_at = seed_time + 2, updated_at = seed_time + 2,
           title = JStr ''Dune'', author_id = JStr ''9'', isbn = JStr ''978-0-441-17271-9'',
           published_year = JNum (Num 1965), price = JNum (Num float_9_99),
           stock = JNum (Num 0)\<rparr>) \<and>
   length (books (fst (create_book example_uuid (seed_time + 2) example_payload
          (fst (create_book example_uuid (seed_time + 1) example_payload seed_store)))))
     = length (books (fst (create_book example_uuid (seed_time + 1) example_payload seed_store)))"
proof -
  have valid: "missing_field book_required_fields example_payload = None"
    by (simp add: book_required_fields_def example_payload_def)
  have lit: "book_literal example_uuid t t example_payload
      = Inr \<lparr>ident = example_uuid, created_at = t, updated_at = t,
           title = JStr ''Dune'', author_id = JStr ''9'', isbn = JStr ''978-0-441-17271-9'',
           published_year = JNum (Num 1965), price = JNum (Num float_9_99),
           stock = JNum (Num 0)\<rparr>" for t
    by (simp add: book_literal_def example_payload_def)
  have step: "create_book example_uuid t example_payload s
      = (s\<lparr>books := dict_set example_uuid
           \<lparr>ident = example_uuid, created_at = t, updated_at = t,
             title = JStr ''Dune'', author_id = JStr ''9'', isbn = JStr ''978-0-441-17271-9'',
             published_year = JNum (Num 1965), price = JNum (Num float_9_99),
             stock = JNum (Num 0)\<rparr> (books s)\<rparr>,
         Inr (201, Book
           \<lparr>ident = example_uuid, created_at = t, updated_at = t,
             title = JStr ''Dune'', author_id = JStr ''9'', isbn = JStr ''978-0-441-17271-9'',
             published_year = JNum (Num 1965), price = JNum (Num float_9_99),
             stock = JNum (Num 0)\<rparr>))" for t s
    by (simp add: create_book_def valid lit)
  show ?thesis
    unfolding step fst_conv snd_conv
    by (simp add: valid seed_store_def seed_books_def example_uuid_def dict_keys_def)
qed

section \<open>Partial update: the frame\<close>

text \<open>
  C5. For a book id in the table and every payload, \<open>PATCH /books/<book_id>\<close> answers
  200 with the merged record: each of \<open>title\<close>, \<open>author_id\<close>, \<open>isbn\<close>,
  \<open>published_year\<close>, \<open>price\<close>, \<open>stock\<close> is the payload's value when the key is
  present and the old value otherwise; \<open>id\<close> and \<open>created_at\<close> are the old ones;
  \<open>updated_at\<close> is the clock's reading, whatever the payload. The table holds the
  merged record under the id, every other entry and the order of the keys are unchanged,
  and so is the Author table. Keys other than the six are ignored: two payloads that
  agree on the six keys give the same result.
\<close>

theorem partial_update_book_frame:
  assumes present: "dict_get (books s) book_id = Some old"
  shows "\<exists>new.
           partial_update_book book_id utcnow data s
             = (s\<lparr>books := dict_set book_id new (books s)\<rparr>, Inr (200, Book new)) \<and>
           title new = (case data ''title'' of None \<Rightarrow> title old | Some v \<Rightarrow> v) \<and>
           author_id new = (case data ''author_id'' of None \<Rightarrow> author_id old | Some v \<Rightarrow> v) \<and>
           isbn new = (case data ''isbn'' of None \<Rightarrow> isbn old | Some v \<Rightarrow> v) \<and>
           published_year new
             = (case data ''published_year'' of None \<Rightarrow> published_year old | Some v \<Rightarrow> v) \<and>
           price new = (case data ''price'' of None \<Rightarrow> price old | Some v \<Rightarrow> v) \<and>
           stock new = (case data ''stock'' of None \<Rightarrow> stock old | Some v \<Rightarrow> v) \<and>
           ident new = ident old \<and>
           created_at new = created_at old \<and>
           updated_at new = utcnow \<and>
           dict_get (books (fst (partial_update_book book_id utcnow data s))) book_id = Some new \<and>
           (\<forall>k. k \<noteq> book_id \<longrightarrow>
              dict_get (books (fst (partial_update_book book_id utcnow data s))) k
                = dict_get (books s) k) \<and>
           dict_keys (books (fst (partial_update_book book_id utcnow data s))) = dict_keys (books s) \<and>
           authors (fst (partial_update_book book_id utcnow data s)) = authors s \<and>
           (\<forall>data'. (\<forall>k\<in>set patch_keys. data' k = data k) \<longrightarrow>
              partial_update_book book_id utcnow data' s
                = partial_update_book book_id utcnow data s)"
proof -
  let ?new = "(patch_fields data old)\<lparr>updated_at := utcnow\<rparr>"
  have res: "partial_update_book book_id utcnow data s
             = (s\<lparr>books := dict_set book_id ?new (books s)\<rparr>, Inr (200, Book ?new))"
    by (simp add: partial_update_book_def present Let_def)
  have flds: "title ?new = (case data ''title'' of None \<Rightarrow> title old | Some v \<Rightarrow> v)"
    "author_id ?new = (case data ''author_id'' of None \<Rightarrow> author_id old | Some v \<Rightarrow> v)"
    "isbn ?new = (case data ''isbn'' of None \<Rightarrow> isbn old | Some v \<Rightarrow> v)"
    "published_year ?new
       = (case data ''published_year'' of None \<Rightarrow> published_year old | Some v \<Rightarrow> v)"
    "price ?new = (case data ''price'' of None \<Rightarrow> price old | Some v \<Rightarrow> v)"
    "stock ?new = (case data ''stock'' of None \<Rightarrow> stock old | Some v \<Rightarrow> v)"
    "ident ?new = ident old" "created_at ?new = created_at old" "updated_at ?new = utcnow"
    by (simp_all add: patch_fields_def Let_def split: option.splits)
  have table: "dict_get (books (fst (partial_update_book book_id utcnow data s))) book_id = Some ?new"
    "\<forall>k. k \<noteq> book_id \<longrightarrow>
        dict_get (books (fst (partial_update_book book_id utcnow data s))) k = dict_get (books s) k"
    "dict_keys (books (fst (partial_update_book book_id utcnow data s))) = dict_keys (books s)"
    "authors (fst (partial_update_book book_id utcnow data s)) = authors s"
    by (simp_all add: res dict_get_set dict_keys_set_present [OF present])
  have ignore: "\<forall>data'. (\<forall>k\<in>set patch_keys. data' k = data k) \<longrightarrow>
              partial_update_book book_id utcnow data' s
                = partial_update_book book_id utcnow data s"
    by (simp add: partial_update_book_def present patch_fields_def patch_keys_def)
  from res flds table ignore show ?thesis
    by (intro exI [of _ ?new] conjI)
qed


theorem partial_update_book_frame_witness:
  "dict_get (books seed_store) ''1''
     = Some \<lparr>ident = ''1'', created_at = seed_time, updated_at = seed_time,
             title = JStr ''The Great Gatsby'', author_id = JStr ''1'',
             isbn = JStr ''978-0-7432-7356-5'', published_year = JNum (Num 1925),
             price = JNum (Num float_12_99), stock = JNum (Num 42)\<rparr> \<and>
   (\<exists>new.
      snd (partial_update_book ''1'' (seed_time + 1)
             [''stock'' \<mapsto> JNum (Num 5), ''id'' \<mapsto> JStr ''7'', ''created_at'' \<mapsto> JNull] seed_store)
        = Inr (200, Book new) \<and>
      new = \<lparr>ident = ''1'', created_at = seed_time, updated_at = seed_time + 1,
             title = JStr ''The Great Gatsby'', author_id = JStr ''1'',
             isbn = JStr ''978-0-7432-7356-5'', published_year = JNum (Num 1925),
             price = JNum (Num float_12_99), stock = JNum (Num 5)\<rparr>)"
proof -
  let ?old = "\<lparr>ident = ''1'', created_at = seed_time, updated_at = seed_time,
             title = JStr ''The Great Gatsby'', author_id = JStr ''1'',
             isbn = JStr ''978-0-7432-7356-5'', published_year = JNum (Num 1925),
             price = JNum (Num float_12_99), stock = JNum (Num 42)\<rparr>"
  let ?data = "[''stock'' \<mapsto> JNum (Num 5), ''id'' \<mapsto> JStr ''7'', ''created_at'' \<mapsto> JNull]"
  have present: "dict_get (books seed_store) ''1'' = Some ?old"
    by (simp add: seed_store_def seed_books_def dict_get_def)
  from partial_update_book_frame [OF present, of "seed_time + 1" ?data]
  obtain new where
    r: "partial_update_book ''1'' (seed_time + 1) ?data seed_store
          = (seed_store\<lparr>books := dict_set ''1'' new (books seed_store)\<rparr>, Inr (200, Book new))"
    and f: "title new = (case ?data ''title'' of None \<Rightarrow> title ?old | Some v \<Rightarrow> v)"
      "author_id new = (case ?data ''author_id'' of None \<Rightarrow> author_id ?old | Some v \<Rightarrow> v)"
      "isbn new = (case ?data ''isbn'' of None \<Rightarrow> isbn ?old | Some v \<Rightarrow> v)"
      "published_year new
         = (case ?data ''published_year'' of None \<Rightarrow> published_year ?old | Some v \<Rightarrow> v)"
      "price new = (case ?data ''price'' of None \<Rightarrow> price ?old | Some v \<Rightarrow> v)"
      "stock new = (case ?data ''stock'' of None \<Rightarrow> stock ?old | Some v \<Rightarrow> v)"
      "ident new = ident ?old" "created_at new = created_at ?old"
      "updated_at new = seed_time + 1"
    by blast
  from f have "new = \<lparr>ident = ''1'', created_at = seed_time, updated_at = seed_time + 1,
             title = JStr ''The Great Gatsby'', author_id = JStr ''1'',
             isbn = JStr ''978-0-7432-7356-5'', published_year = JNum (Num 1925),
             price = JNum (Num float_12_99), stock = JNum (Num 5)\<rparr>"
    by (cases new) simp
  with r present show ?thesis
    by simp
qed

section \<open>Replace twice\<close>




section \<open>Deleting an author\<close>

lemma dict_get_del_fun: "dict_get (dict_del k d) = (dict_get d)(k := None)"
  by (rule ext) (simp add: dict_get_del)

lemma dict_keys_del: "dict_keys (dict_del k d) = removeAll k (dict_keys d)"
  by (induction d) (auto simp: dict_keys_def dict_del_def)

text \<open>
  C7. \<open>DELETE /authors/<author_id>\<close> leaves the Book table as it was, so every listing
  of books answers as before and the books whose \<open>author_id\<close> is the deleted author's
  are still there. Of the Author table only the entry of that id goes: lookups of other
  ids and the order of the remaining keys are unchanged. The answer is 204 with an empty
  body when the id was present and 404 otherwise.
\<close>

theorem delete_author_frame:
  "books (fst (delete_author author_id' s)) = books s \<and>
   get_books a lo hi (fst (delete_author author_id' s)) = get_books a lo hi s \<and>
   filter (\<lambda>b. author_id b = JStr author_id') (dict_values (books (fst (delete_author author_id' s))))
     = filter (\<lambda>b. author_id b = JStr author_id') (dict_values (books s)) \<and>
   dict_get (authors (fst (delete_author author_id' s))) = (dict_get (authors s))(author_id' := None) \<and>
   dict_keys (authors (fst (delete_author author_id' s))) = removeAll author_id' (dict_keys (authors s)) \<and>
   snd (delete_author author_id' s)
     = (if dict_get (authors s) author_id' = None then Inr (404, Error ''Author not found'')
        else Inr (204, Empty))"
proof (cases "dict_get (authors s) author_id'")
  case None
  then show ?thesis
    by (simp add: delete_author_def fun_upd_idem dict_keys_def)
       (simp add: dict_get_None_iff dict_keys_def)
next
  case (Some a)
  then show ?thesis
    by (simp add: delete_author_def dict_get_del_fun dict_keys_del get_books_def)
qed

theorem delete_author_frame_witness:
  "snd (delete_author ''1'' seed_store) = Inr (204, Empty) \<and>
   get_author ''1'' (fst (delete_author ''1'' seed_store)) = Inr (404, Error ''Author not found'') \<and>
   books (fst (delete_author ''1'' seed_store)) = seed_books \<and>
   dict_keys (authors (fst (delete_author ''1'' seed_store))) = [''2'', ''3''] \<and>
   filter (\<lambda>b. author_id b = JStr ''1'') (dict_values (books (fst (delete_author ''1'' seed_store))))
     = [\<lparr>ident = ''1'', created_at = seed_time, updated_at = seed_time,
         title = JStr ''The Great Gatsby'', author_id = JStr ''1'',
         isbn = JStr ''978-0-7432-7356-5'', published_year = JNum (Num 1925),
         price = JNum (Num float_12_99), stock = JNum (Num 42)\<rparr>]"
  using delete_author_frame [of "''1''" seed_store None None None]
  by (simp add: get_author_def seed_store_def seed_books_def seed_authors_def
      dict_get_def dict_keys_def dict_values_def)

section \<open>The books of an author\<close>

text \<open>
  C8. \<open>GET /authors/<author_id>/books\<close> answers 404 with the body
  \<open>{"error": "Author not found"}\<close> when the id is not in the Author table. Otherwise
  it answers 200 with the author's record, the books of the Book table whose
  \<open>author_id\<close> is the given id, in table order, and the length of that list; the
  author is also answered with 200 by \<open>GET /authors/<author_id>\<close>, and when no book
  has that \<open>author_id\<close> the list is empty and the count is 0.
\<close>

theorem get_author_books_spec:
  "(dict_get (authors s) author_id' = None \<longrightarrow>
      get_author_books author_id' s = Inr (404, Error ''Author not found'')) \<and>
   (\<forall>a. dict_get (authors s) author_id' = Some a \<longrightarrow>
      get_author_books author_id' s
        = Inr (200, AuthorBooks a
                 (filter (\<lambda>b. author_id b = JStr author_id') (dict_values (books s)))
                 (length (filter (\<lambda>b. author_id b = JStr author_id') (dict_values (books s))))) \<and>
      get_author author_id' s = Inr (200, Author a) \<and>
      ((\<forall>b\<in>set (dict_values (books s)). author_id b \<noteq> JStr author_id') \<longrightarrow>
         get_author_books author_id' s = Inr (200, AuthorBooks a [] 0)))"
proof -
  have none: "(\<forall>b\<in>set bs. author_id b \<noteq> JStr author_id')
      \<Longrightarrow> filter (\<lambda>b. author_id b = JStr author_id') bs = []" for bs :: "book list"
    by (induction bs) auto
  show ?thesis
    by (auto simp: get_author_books_def get_author_def Let_def none)
qed

theorem get_author_books_spec_witness:
  "get_author_books ''4'' seed_store = Inr (404, Error ''Author not found'') \<and>
   get_author_books ''3'' (fst (delete_book ''3'' seed_store))
     = Inr (200, AuthorBooks
         \<lparr>ident = ''3'', created_at = seed_time, updated_at = seed_time,
           name = JStr ''George Orwell'', birth_year = JNum (Num 1903),
           nationality = JStr ''British''\<rparr> [] 0) \<and>
   get_author ''3'' (fst (delete_book ''3'' seed_store))
     = Inr (200, Author
         \<lparr>ident = ''3'', created_at = seed_time, updated_at = seed_time,
           name = JStr ''George Orwell'', birth_year = JNum (Num 1903),
           nationality = JStr ''British''\<rparr>)"
proof -
  let ?s = "fst (delete_book ''3'' seed_store)"
  let ?orwell = "\<lparr>ident = ''3'', created_at = seed_time, updated_at = seed_time,
           name = JStr ''George Orwell'', birth_year = JNum (Num 1903),
           nationality = JStr ''British''\<rparr>"
  have s: "?s = \<lparr>books = dict_del ''3'' seed_books, authors = seed_authors\<rparr>"
    by (simp add: delete_book_def seed_store_def seed_books_def dict_get_def)
  have absent: "dict_get (authors seed_store) ''4'' = None"
    by (simp add: seed_store_def seed_authors_def dict_get_def)
  have present: "dict_get (authors ?s) ''3'' = Some ?orwell"
    by (simp add: s seed_authors_def dict_get_def)
  have no_books: "\<forall>b\<in>set (dict_values (books ?s)). author_id b \<noteq> JStr ''3''"
    by (simp add: s seed_books_def dict_del_def dict_values_def)
  from get_author_books_spec [of seed_store "''4''"] absent
  have "get_author_books ''4'' seed_store = Inr (404, Error ''Author not found'')"
    by blast
  moreover from get_author_books_spec [of ?s "''3''"] present no_books
  have "get_author_books ''3'' ?s = Inr (200, AuthorBooks ?orwell [] 0)"
    "get_author ''3'' ?s = Inr (200, Author ?orwell)"
    by blast+
  ultimately show ?thesis
    by simp
qed

section \<open>Listing books\<close>

lemma comprehension_filter:
  assumes "\<forall>x\<in>set xs. \<exists>keep. c x = Inr keep"
  shows "comprehension c xs = Inr (filter (\<lambda>x. c x = Inr True) xs)"
  using assms by (induction xs) auto

lemma comprehension_raises:
  assumes "\<exists>x\<in>set xs. c x = Inl e"
    and "\<forall>x\<in>set xs. c x = Inl e \<or> (\<exists>keep. c x = Inr keep)"
  shows "comprehension c xs = Inl e"
  using assms
proof (induction xs)
  case Nil
  then show ?case by simp
next
  case (Cons x xs)
  show ?case
  proof (cases "c x")
    case (Inl e')
    with Cons.prems(2) show ?thesis by simp
  next
    case (Inr keep)
    with Cons.prems have "\<exists>x\<in>set xs. c x = Inl e"
      and "\<forall>x\<in>set xs. c x = Inl e \<or> (\<exists>keep. c x = Inr keep)"
      by auto
    then have "comprehension c xs = Inl e"
      by (rule Cons.IH)
    with Inr show ?thesis by simp
  qed
qed

lemma comprehension_py_ge:
  assumes "\<forall>b\<in>set bs. py_number (price b) \<noteq> None"
  shows "comprehension (\<lambda>b. py_ge (price b) lo) bs = Inr (filter (price_at_least lo) bs)"
proof -
  have "\<forall>b\<in>set bs. \<exists>keep. py_ge (price b) lo = Inr keep"
    using assms by (auto simp: py_ge_def)
  then have "comprehension (\<lambda>b. py_ge (price b) lo) bs
      = Inr (filter (\<lambda>b. py_ge (price b) lo = Inr True) bs)"
    by (rule comprehension_filter)
  moreover have "filter (\<lambda>b. py_ge (price b) lo = Inr True) bs = filter (price_at_least lo) bs"
    by (rule filter_cong) (auto simp: py_ge_def price_at_least_def split: option.splits)
  ultimately show ?thesis
    by simp
qed

lemma comprehension_py_le:
  assumes "\<forall>b\<in>set bs. py_number (price b) \<noteq> None"
  shows "comprehension (\<lambda>b. py_le (price b) hi) bs = Inr (filter (price_at_most hi) bs)"
proof -
  have "\<forall>b\<in>set bs. \<exists>keep. py_le (price b) hi = Inr keep"
    using assms by (auto simp: py_le_def)
  then have "comprehension (\<lambda>b. py_le (price b) hi) bs
      = Inr (filter (\<lambda>b. py_le (price b) hi = Inr True) bs)"
    by (rule comprehension_filter)
  moreover have "filter (\<lambda>b. py_le (price b) hi = Inr True) bs = filter (price_at_most hi) bs"
    by (rule filter_cong) (auto simp: py_le_def price_at_most_def split: option.splits)
  ultimately show ?thesis
    by simp
qed

lemma comprehension_py_ge_raises:
  assumes "\<exists>b\<in>set bs. py_number (price b) = None"
  shows "comprehension (\<lambda>b. py_ge (price b) lo) bs = Inl TypeError"
  using assms
  by (intro comprehension_raises) (auto simp: py_ge_def split: option.splits)

lemma comprehension_py_le_raises:
  assumes "\<exists>b\<in>set bs. py_number (price b) = None"
  shows "comprehension (\<lambda>b. py_le (price b) hi) bs = Inl TypeError"
  using assms
  by (intro comprehension_raises) (auto simp: py_le_def split: option.splits)

lemma list_books_spec_stages:
  "list_books_spec a lo hi bs =
     (case hi of None \<Rightarrow> id | Some h \<Rightarrow> filter (price_at_most h))
       ((case lo of None \<Rightarrow> id | Some l \<Rightarrow> filter (price_at_least l))
          ((case a of None \<Rightarrow> id | Some x \<Rightarrow> filter (\<lambda>b. author_id b = JStr x)) bs))"
  by (cases a; cases lo; cases hi) (auto simp: list_books_spec_def intro: filter_cong)

lemma author_stage:
  "(case author_id' of None \<Rightarrow> bs
    | Some x \<Rightarrow> if x = [] then bs else filter (\<lambda>b. author_id b = JStr x) bs)
   = filter (author_filter author_id') bs"
  by (cases author_id') (auto simp: author_filter_def intro: filter_cong)

lemma author_stage_spec:
  "(case (if a = Some [] then None else a) of
      None \<Rightarrow> id | Some x \<Rightarrow> filter (\<lambda>b. author_id b = JStr x)) bs
   = filter (author_filter a) bs"
  by (cases a) (auto simp: author_filter_def intro: filter_cong)

text \<open>What \<open>get_books\<close> computes after the author stage.\<close>

lemma get_books_stages:
  "get_books a min_price max_price s =
      (case (case min_price of
               None \<Rightarrow> Inr (filter (author_filter a) (dict_values (books s)))
             | Some lo \<Rightarrow> comprehension (\<lambda>b. py_ge (price b) lo)
                            (filter (author_filter a) (dict_values (books s)))) of
         Inl e \<Rightarrow> Inl e
       | Inr by_min \<Rightarrow>
           (case (case max_price of
                    None \<Rightarrow> Inr by_min
                  | Some hi \<Rightarrow> comprehension (\<lambda>b. py_le (price b) hi) by_min) of
              Inl e \<Rightarrow> Inl e
            | Inr filtered_books \<Rightarrow> Inr (200, Books filtered_books (length filtered_books))))"
  by (simp only: get_books_def Let_def author_stage)

text \<open>
  C2, amended. \<open>GET /books\<close> answers 200 with the books of the table, in table order,
  that pass every filter, and with their count: \<open>author_id\<close> equal to the parameter when
  the parameter is provided and not the empty string (an empty \<open>author_id\<close> is treated
  as an absent one), \<open>price >= min_price\<close> when \<open>min_price\<close> is provided,
  \<open>price <= max_price\<close> when \<open>max_price\<close> is provided. This holds when no price bound
  is given, or when every book that passes the author filter has a number as its price.
\<close>

theorem get_books_filters:
  assumes numeric: "min_price = None \<and> max_price = None \<or>
                    (\<forall>b\<in>set (dict_values (books s)).
                       author_filter a b \<longrightarrow> py_number (price b) \<noteq> None)"
  shows "get_books a min_price max_price s
           = Inr (200, Books
               (list_books_spec (if a = Some [] then None else a) min_price max_price
                  (dict_values (books s)))
               (length (list_books_spec (if a = Some [] then None else a) min_price max_price
                  (dict_values (books s)))))"
proof -
  define by_author where "by_author = filter (author_filter a) (dict_values (books s))"
  define by_min where
    "by_min = (case min_price of None \<Rightarrow> id | Some l \<Rightarrow> filter (price_at_least l)) by_author"
  define by_max where
    "by_max = (case max_price of None \<Rightarrow> id | Some h \<Rightarrow> filter (price_at_most h)) by_min"
  have sub: "set by_min \<subseteq> set by_author"
    by (auto simp: by_min_def split: option.splits)
  from numeric have numeric': "min_price = None \<and> max_price = None \<or>
      (\<forall>b\<in>set by_author. py_number (price b) \<noteq> None)"
    by (auto simp: by_author_def)
  have lower: "(case min_price of None \<Rightarrow> Inr by_author
                | Some lo \<Rightarrow> comprehension (\<lambda>b. py_ge (price b) lo) by_author)
               = Inr by_min"
  proof (cases min_price)
    case None
    then show ?thesis by (simp add: by_min_def)
  next
    case (Some lo)
    with numeric' have "\<forall>b\<in>set by_author. py_number (price b) \<noteq> None"
      by blast
    from comprehension_py_ge [OF this] Some show ?thesis
      by (simp add: by_min_def)
  qed
  have upper: "(case max_price of None \<Rightarrow> Inr by_min
                | Some hi \<Rightarrow> comprehension (\<lambda>b. py_le (price b) hi) by_min)
               = Inr by_max"
  proof (cases max_price)
    case None
    then show ?thesis by (simp add: by_max_def)
  next
    case (Some hi)
    with numeric' sub have "\<forall>b\<in>set by_min. py_number (price b) \<noteq> None"
      by blast
    from comprehension_py_le [OF this] Some show ?thesis
      by (simp add: by_max_def)
  qed
  have "get_books a min_price max_price s =
      (case (case min_price of
               None \<Rightarrow> Inr by_author
             | Some lo \<Rightarrow> comprehension (\<lambda>b. py_ge (price b) lo) by_author) of
         Inl e \<Rightarrow> Inl e
       | Inr by_min \<Rightarrow>
           (case (case max_price of
                    None \<Rightarrow> Inr by_min
                  | Some hi \<Rightarrow> comprehension (\<lambda>b. py_le (price b) hi) by_min) of
              Inl e \<Rightarrow> Inl e
            | Inr filtered_books \<Rightarrow> Inr (200, Books filtered_books (length filtered_books))))"
    by (simp only: get_books_stages by_author_def)
  also have "\<dots> = Inr (200, Books by_max (length by_max))"
    by (simp add: lower upper)
  finally have "get_books a min_price max_price s = Inr (200, Books by_max (length by_max))" .
  moreover have "list_books_spec (if a = Some [] then None else a) min_price max_price
      (dict_values (books s)) = by_max"
    by (simp only: list_books_spec_stages author_stage_spec by_max_def by_min_def by_author_def)
  ultimately show ?thesis
    by simp
qed

theorem get_books_filters_witness:
  "get_books None (Some (Num 13)) (Some (Num 14)) seed_store
     = Inr (200, Books
         [\<lparr>ident = ''3'', created_at = seed_time, updated_at = seed_time,
           title = JStr ''1984'', author_id = JStr ''3'',
           isbn = JStr ''978-0-452-28423-4'', published_year = JNum (Num 1949),
           price = JNum (Num float_13_99), stock = JNum (Num 35)\<rparr>] 1) \<and>
   get_books None (Some (Num float_12_99)) None seed_store
     = Inr (200, Books (dict_values seed_books) 3) \<and>
   py_number (JStr ''free'') = None \<and>
   get_books (Some ''1'') (Some (Num 1)) None
       (fst (create_book example_uuid (seed_time + 1) free_payload seed_store))
     = Inr (200, Books
         [\<lparr>ident = ''1'', created_at = seed_time, updated_at = seed_time,
           title = JStr ''The Great Gatsby'', author_id = JStr ''1'',
           isbn = JStr ''978-0-7432-7356-5'', published_year = JNum (Num 1925),
           price = JNum (Num float_12_99), stock = JNum (Num 42)\<rparr>] 1)"
proof -
  let ?dune = "\<lparr>ident = example_uuid, created_at = seed_time + 1, updated_at = seed_time + 1,
           title = JStr ''Dune'', author_id = JStr ''9'', isbn = JStr ''978-0-441-17271-9'',
           published_year = JNum (Num 1965), price = JStr ''free'', stock = JNum (Num 0)\<rparr>"
  let ?s = "fst (create_book example_uuid (seed_time + 1) free_payload seed_store)"
  have s: "dict_values (books ?s) = dict_values seed_books @ [?dune]"
    by (simp add: create_book_def book_required_fields_def free_payload_def example_payload_def
        book_literal_def seed_store_def seed_books_def example_uuid_def dict_values_def)
  have seed: "\<forall>b\<in>set (dict_values (books seed_store)).
      author_filter None b \<longrightarrow> py_number (price b) \<noteq> None"
    by (simp add: seed_store_def seed_books_def dict_values_def del: not_None_eq)
  have one: "\<forall>b\<in>set (dict_values (books ?s)).
      author_filter (Some ''1'') b \<longrightarrow> py_number (price b) \<noteq> None"
    unfolding s
    by (simp add: seed_books_def dict_values_def author_filter_def del: not_None_eq)
  have l1: "list_books_spec None (Some (Num 13)) (Some (Num 14)) (dict_values (books seed_store))
      = [\<lparr>ident = ''3'', created_at = seed_time, updated_at = seed_time,
           title = JStr ''1984'', author_id = JStr ''3'',
           isbn = JStr ''978-0-452-28423-4'', published_year = JNum (Num 1949),
           price = JNum (Num float_13_99), stock = JNum (Num 35)\<rparr>]"
    by (simp add: list_books_spec_def price_at_least_def price_at_most_def
        seed_store_def seed_books_def dict_values_def
        float_12_99_def float_13_99_def float_14_99_def)
  have l2: "list_books_spec None (Some (Num float_12_99)) None (dict_values (books seed_store))
      = dict_values seed_books"
    by (simp add: list_books_spec_def price_at_least_def
        seed_store_def seed_books_def dict_values_def
        float_12_99_def float_13_99_def float_14_99_def)
  have l3: "list_books_spec (Some ''1'') (Some (Num 1)) None (dict_values (books ?s))
      = [\<lparr>ident = ''1'', created_at = seed_time, updated_at = seed_time,
           title = JStr ''The Great Gatsby'', author_id = JStr ''1'',
           isbn = JStr ''978-0-7432-7356-5'', published_year = JNum (Num 1925),
           price = JNum (Num float_12_99), stock = JNum (Num 42)\<rparr>]"
    unfolding s
    by (simp add: list_books_spec_def price_at_least_def seed_books_def dict_values_def
        float_12_99_def)
  have n: "length (dict_values seed_books) = 3"
    by (simp add: seed_books_def dict_values_def)
  note r1 = get_books_filters [OF disjI2 [OF seed], of "Some (Num 13)" "Some (Num 14)"]
  note r2 = get_books_filters [OF disjI2 [OF seed], of "Some (Num float_12_99)" None]
  note r3 = get_books_filters [OF disjI2 [OF one], of "Some (Num 1)" None]
  have bad: "py_number (JStr ''free'') = None"
    by simp
  have a1: "(if (None :: string option) = Some [] then None else None) = None"
    and a3: "(if Some ''1'' = Some [] then None else Some ''1'') = Some ''1''"
    by simp_all
  from r1 [unfolded a1 l1] r2 [unfolded a1 l2 n] r3 [unfolded a3 l3] bad show ?thesis
    by simp
qed

text \<open>
  C2 as stated fails. On the seed table, \<open>author_id\<close> provided as the empty string
  selects no book by equality, and the handler returns all three. And after a book with
  the price \<open>"free"\<close> has been created, a listing with \<open>min_price\<close> and no author
  filter does not answer 200.
\<close>

theorem get_books_as_stated_counterexample:
  "get_books (Some '''') None None seed_store
     \<noteq> Inr (200, Books
           (list_books_spec (Some '''') None None (dict_values (books seed_store)))
           (length (list_books_spec (Some '''') None None (dict_values (books seed_store))))) \<and>
   list_books_spec (Some '''') None None (dict_values (books seed_store)) = [] \<and>
   get_books (Some '''') None None seed_store = Inr (200, Books (dict_values seed_books) 3) \<and>
   snd (create_book example_uuid (seed_time + 1) free_payload seed_store)
     = Inr (201, Book
         \<lparr>ident = example_uuid, created_at = seed_time + 1, updated_at = seed_time + 1,
           title = JStr ''Dune'', author_id = JStr ''9'', isbn = JStr ''978-0-441-17271-9'',
           published_year = JNum (Num 1965), price = JStr ''free'', stock = JNum (Num 0)\<rparr>) \<and>
   get_books None (Some (Num 1)) None
       (fst (create_book example_uuid (seed_time + 1) free_payload seed_store))
     = Inl TypeError"
proof -
  have spec: "list_books_spec (Some '''') None None (dict_values (books seed_store)) = []"
    by (simp add: list_books_spec_def seed_store_def seed_books_def dict_values_def)
  have code: "get_books (Some '''') None None seed_store = Inr (200, Books (dict_values seed_books) 3)"
    by (simp add: get_books_def Let_def seed_store_def seed_books_def dict_values_def)
  have created: "create_book example_uuid (seed_time + 1) free_payload seed_store
     = (seed_store\<lparr>books := dict_set example_uuid
         \<lparr>ident = example_uuid, created_at = seed_time + 1, updated_at = seed_time + 1,
           title = JStr ''Dune'', author_id = JStr ''9'', isbn = JStr ''978-0-441-17271-9'',
           published_year = JNum (Num 1965), price = JStr ''free'', stock = JNum (Num 0)\<rparr> (books seed_store)\<rparr>,
        Inr (201, Book
         \<lparr>ident = example_uuid, created_at = seed_time + 1, updated_at = seed_time + 1,
           title = JStr ''Dune'', author_id = JStr ''9'', isbn = JStr ''978-0-441-17271-9'',
           published_year = JNum (Num 1965), price = JStr ''free'', stock = JNum (Num 0)\<rparr>))"
    by (simp add: create_book_def book_required_fields_def free_payload_def example_payload_def
        book_literal_def)
  have raised: "get_books None (Some (Num 1)) None
       (fst (create_book example_uuid (seed_time + 1) free_payload seed_store))
     = Inl TypeError"
    unfolding created fst_conv
    by (simp add: get_books_def Let_def seed_store_def seed_books_def example_uuid_def
        dict_values_def py_ge_def float_12_99_def float_13_99_def float_14_99_def)
  from spec code created raised show ?thesis
    by (simp add: seed_books_def dict_values_def)
qed

text \<open>
  The premise cannot be made weaker: with a price bound and a book that passes the author
  filter and whose price is not a number, the first price comparison raises.
\<close>

lemma get_books_raises:
  assumes bound: "min_price \<noteq> None \<or> max_price \<noteq> None"
    and bad: "\<exists>b\<in>set (dict_values (books s)). author_filter a b \<and> py_number (price b) = None"
  shows "get_books a min_price max_price s = Inl TypeError"
proof -
  define by_author where "by_author = filter (author_filter a) (dict_values (books s))"
  from bad have bad': "\<exists>b\<in>set by_author. py_number (price b) = None"
    by (auto simp: by_author_def)
  have stages: "get_books a min_price max_price s =
      (case (case min_price of
               None \<Rightarrow> Inr by_author
             | Some lo \<Rightarrow> comprehension (\<lambda>b. py_ge (price b) lo) by_author) of
         Inl e \<Rightarrow> Inl e
       | Inr by_min \<Rightarrow>
           (case (case max_price of
                    None \<Rightarrow> Inr by_min
                  | Some hi \<Rightarrow> comprehension (\<lambda>b. py_le (price b) hi) by_min) of
              Inl e \<Rightarrow> Inl e
            | Inr filtered_books \<Rightarrow> Inr (200, Books filtered_books (length filtered_books))))"
    by (simp only: get_books_stages by_author_def)
  show ?thesis
  proof (cases min_price)
    case None
    with bound obtain hi where "max_price = Some hi"
      by auto
    with None comprehension_py_le_raises [OF bad', of hi] show ?thesis
      unfolding stages by simp
  next
    case (Some lo)
    with comprehension_py_ge_raises [OF bad', of lo] show ?thesis
      unfolding stages by simp
  qed
qed

section \<open>Timestamps\<close>

lemma stamped_until_mono: "stamped_until t r \<Longrightarrow> t \<le> t' \<Longrightarrow> stamped_until t' r"
  by (simp add: stamped_until_def)

lemma stamped_until_ordered: "stamped_until t r \<Longrightarrow> ordered_stamps r"
  by (simp add: stamped_until_def ordered_stamps_def)

lemma list_all_values_set:
  "P v \<Longrightarrow> list_all P (dict_values d) \<Longrightarrow> list_all P (dict_values (dict_set k v d))"
  by (induction d) (auto simp: dict_values_def)

lemma list_all_values_del:
  "list_all P (dict_values d) \<Longrightarrow> list_all P (dict_values (dict_del k d))"
  by (induction d) (auto simp: dict_values_def dict_del_def)

lemma list_all_values_get:
  "list_all P (dict_values d) \<Longrightarrow> dict_get d k = Some v \<Longrightarrow> P v"
  by (induction d) (auto simp: dict_values_def dict_get_def split: if_splits)

lemma list_all_mono: "list_all P xs \<Longrightarrow> (\<And>x. P x \<Longrightarrow> Q x) \<Longrightarrow> list_all Q xs"
  by (induction xs) auto

lemma all_records_mono:
  "all_records (stamped_until t) (stamped_until t) s \<Longrightarrow> t \<le> t'
     \<Longrightarrow> all_records (stamped_until t') (stamped_until t') s"
  unfolding all_records_def
  by (auto intro: list_all_mono stamped_until_mono)

lemma book_literal_stamps:
  "book_literal k c u data = Inr b \<Longrightarrow> created_at b = c \<and> updated_at b = u"
  by (auto simp: book_literal_def split: option.splits)

lemma author_literal_stamps:
  "author_literal k c u data = Inr b \<Longrightarrow> created_at b = c \<and> updated_at b = u"
  by (auto simp: author_literal_def split: option.splits)

lemma patch_fields_stamps:
  "created_at (patch_fields data b) = created_at b \<and> updated_at (patch_fields data b) = updated_at b"
  by (simp add: patch_fields_def Let_def split: option.splits)

lemma create_book_stamped:
  assumes "all_records (stamped_until t) (stamped_until t) s"
  shows "all_records (stamped_until t) (stamped_until t) (fst (create_book u t data s))"
  using assms
  by (auto simp: create_book_def all_records_def stamped_until_def
      split: option.splits sum.splits
      dest!: book_literal_stamps intro!: list_all_values_set)

lemma update_book_stamped:
  assumes "all_records (stamped_until t) (stamped_until t) s"
  shows "all_records (stamped_until t) (stamped_until t) (fst (update_book k t data s))"
proof (cases "dict_get (books s) k")
  case None
  with assms show ?thesis
    by (simp add: update_book_def)
next
  case (Some old)
  with assms have "stamped_until t old"
    by (auto simp: all_records_def dest: list_all_values_get)
  with assms Some show ?thesis
    by (auto simp: update_book_def all_records_def stamped_until_def
        split: option.splits sum.splits
        dest!: book_literal_stamps intro!: list_all_values_set)
qed

lemma partial_update_book_stamped:
  assumes "all_records (stamped_until t) (stamped_until t) s"
  shows "all_records (stamped_until t) (stamped_until t) (fst (partial_update_book k t data s))"
proof (cases "dict_get (books s) k")
  case None
  with assms show ?thesis
    by (simp add: partial_update_book_def)
next
  case (Some old)
  with assms have "stamped_until t old"
    by (auto simp: all_records_def dest: list_all_values_get)
  with assms Some show ?thesis
    by (auto simp: partial_update_book_def all_records_def stamped_until_def Let_def
        patch_fields_stamps intro!: list_all_values_set)
qed

lemma delete_book_stamped:
  assumes "all_records (stamped_until t) (stamped_until t) s"
  shows "all_records (stamped_until t) (stamped_until t) (fst (delete_book k s))"
  using assms
  by (auto simp: delete_book_def all_records_def split: option.splits
      intro: list_all_values_del)

lemma create_author_stamped:
  assumes "all_records (stamped_until t) (stamped_until t) s"
  shows "all_records (stamped_until t) (stamped_until t) (fst (create_author u t data s))"
  using assms
  by (auto simp: create_author_def all_records_def stamped_until_def
      split: option.splits sum.splits
      dest!: author_literal_stamps intro!: list_all_values_set)

lemma update_author_stamped:
  assumes "all_records (stamped_until t) (stamped_until t) s"
  shows "all_records (stamped_until t) (stamped_until t) (fst (update_author k t data s))"
proof (cases "dict_get (authors s) k")
  case None
  with assms show ?thesis
    by (simp add: update_author_def)
next
  case (Some old)
  with assms have "stamped_until t old"
    by (auto simp: all_records_def dest: list_all_values_get)
  with assms Some show ?thesis
    by (auto simp: update_author_def all_records_def stamped_until_def
        split: option.splits sum.splits
        dest!: author_literal_stamps intro!: list_all_values_set)
qed

lemma delete_author_stamped:
  assumes "all_records (stamped_until t) (stamped_until t) s"
  shows "all_records (stamped_until t) (stamped_until t) (fst (delete_author k s))"
  using assms
  by (auto simp: delete_author_def all_records_def split: option.splits
      intro: list_all_values_del)

lemma handle_stamped:
  assumes "all_records (stamped_until t) (stamped_until t) s" and "t \<le> clock c"
  shows "all_records (stamped_until (clock c)) (stamped_until (clock c)) (fst (handle c s))"
proof -
  from assms have now: "all_records (stamped_until (clock c)) (stamped_until (clock c)) s"
    by (rule all_records_mono)
  show ?thesis
    by (cases "req c")
      (simp_all add: handle_def now create_book_stamped update_book_stamped
        partial_update_book_stamped delete_book_stamped create_author_stamped
        update_author_stamped delete_author_stamped)
qed

lemma run_stamped:
  assumes "all_records (stamped_until t) (stamped_until t) s" and "sorted (t # map clock cs)"
  shows "all_records (stamped_until (last (t # map clock cs))) (stamped_until (last (t # map clock cs)))
           (run cs s)"
  using assms
proof (induction cs arbitrary: t s)
  case Nil
  then show ?case by simp
next
  case (Cons c cs)
  from Cons.prems have le: "t \<le> clock c" and rest: "sorted (clock c # map clock cs)"
    by simp_all
  from handle_stamped [OF Cons.prems(1) le] rest
  have "all_records (stamped_until (last (clock c # map clock cs)))
          (stamped_until (last (clock c # map clock cs))) (run cs (fst (handle c s)))"
    by (rule Cons.IH)
  then show ?case
    by simp
qed

text \<open>
  C9, amended. Start from a store in which every record of both tables has
  \<open>created_at \<le> updated_at\<close> and no timestamp later than \<open>t\<close>, as the seed store is
  with \<open>t\<close> the seed timestamp, and run any sequence of calls whose clock readings are
  not earlier than \<open>t\<close> and never go back. Then every record of both tables has
  \<open>created_at \<le> updated_at\<close>.
\<close>

theorem created_at_le_updated_at:
  assumes "all_records (stamped_until t) (stamped_until t) s"
    and "sorted (t # map clock cs)"
  shows "all_records ordered_stamps ordered_stamps (run cs s)"
  using run_stamped [OF assms]
  unfolding all_records_def
  by (blast intro: list_all_mono stamped_until_ordered)


theorem created_at_le_updated_at_witness:
  "all_records (stamped_until seed_time) (stamped_until seed_time) seed_store \<and>
   sorted (seed_time # map clock example_calls) \<and>
   all_records ordered_stamps ordered_stamps (run example_calls seed_store)"
proof (intro conjI)
  show seed: "all_records (stamped_until seed_time) (stamped_until seed_time) seed_store"
    by (simp add: all_records_def stamped_until_def seed_store_def seed_books_def
        seed_authors_def dict_values_def)
  show clocks: "sorted (seed_time # map clock example_calls)"
    by (simp add: example_calls_def)
  show "all_records ordered_stamps ordered_stamps (run example_calls seed_store)"
    by (rule created_at_le_updated_at [OF seed clocks])
qed

text \<open>
  C9 as stated fails when the clock, monotone as it may be, reads earlier than a timestamp
  that the table already holds. The seed records are stamped \<open>2024-01-01T00:00:00Z\<close>;
  with a single clock reading before that instant, a partial update of seed book 1 leaves
  it with \<open>updated_at\<close> before \<open>created_at\<close>.
\<close>

theorem created_at_le_updated_at_counterexample:
  "all_records ordered_stamps ordered_stamps seed_store \<and>
   sorted (map clock
     [\<lparr>uuid = example_uuid, clock = 5, req = PartialUpdateBook ''1'' Map.empty\<rparr>]) \<and>
   \<not> all_records ordered_stamps ordered_stamps
       (run [\<lparr>uuid = example_uuid, clock = 5, req = PartialUpdateBook ''1'' Map.empty\<rparr>]
          seed_store)"
  by (simp add: all_records_def ordered_stamps_def handle_def partial_update_book_def
      patch_fields_def Let_def seed_store_def seed_books_def seed_authors_def seed_time_def
      dict_get_def dict_values_def)

end
